theory Spec2Isabelle
  imports Main
begin

section \<open>microtap: a TAP version 14 producer\<close>

text \<open>
  A shallow embedding of \<^verbatim>\<open>microtap.py\<close>: the string helpers, the plan
  container, the plan runner and the session orchestrator. Python strings are
  \<^typ>\<open>string\<close>, \<^verbatim>\<open>Optional[str]\<close> is \<^typ>\<open>string option\<close>, the effects
  of a run (writing to the output stream, calling a test function) are recorded in the
  order in which they happen, and an exception that leaves a function is the \<open>Inl\<close>
  branch of its result.
\<close>

subsection \<open>Python string operations used by the module\<close>

text \<open>
  The module is written for MicroPython (it calls \<^verbatim>\<open>sys.print_exception\<close> and
  \<^verbatim>\<open>os.ilistdir\<close>), and the string methods are modelled as that interpreter has
  them. The characters \<^verbatim>\<open>str.strip()\<close> removes when called without arguments are
  space, tab, line feed, vertical tab, form feed and carriage return.
\<close>

definition isspace :: "char \<Rightarrow> bool" where
  "isspace c = (c \<in> {CHR '' '', CHR 0x09, CHR 0x0A, CHR 0x0B, CHR 0x0C, CHR 0x0D})"

definition lstrip :: "string \<Rightarrow> string" where
  "lstrip s = dropWhile isspace s"

definition rstrip :: "string \<Rightarrow> string" where
  "rstrip s = rev (dropWhile isspace (rev s))"

definition strip :: "string \<Rightarrow> string" where
  "strip s = rstrip (lstrip s)"

text \<open>
  \<^verbatim>\<open>s.replace(old, new)\<close> where \<open>old\<close> is a single character, which is how the
  module calls it both times.
\<close>

definition str_replace :: "char \<Rightarrow> string \<Rightarrow> string \<Rightarrow> string" where
  "str_replace old new s = concat (map (\<lambda>c. if c = old then new else [c]) s)"

text \<open>\<^verbatim>\<open>str(n)\<close> of a non-negative integer, as the f-strings format an index.\<close>

definition digit :: "nat \<Rightarrow> char" where
  "digit d = ''0123456789'' ! d"

fun str_nat :: "nat \<Rightarrow> string" where
  "str_nat n = (if n < 10 then [digit n] else str_nat (n div 10) @ [digit (n mod 10)])"

declare str_nat.simps [simp del]

text \<open>
  \<^verbatim>\<open>s.splitlines()\<close>: the text is cut at every line feed, carriage return, or
  carriage return followed by line feed; the separators are dropped and no empty last
  line is produced. \<open>splitlines_from cur s\<close> is the scan with the line collected so
  far in \<open>cur\<close>.
\<close>

fun splitlines_from :: "string \<Rightarrow> string \<Rightarrow> string list" where
  "splitlines_from cur [] = (if cur = [] then [] else [cur])"
| "splitlines_from cur (c # cs) =
     (if c = CHR 0x0A then cur # splitlines_from [] cs
      else if c = CHR 0x0D then
        (case cs of
           d # ds \<Rightarrow> if d = CHR 0x0A then cur # splitlines_from [] ds
                     else cur # splitlines_from [] cs
         | [] \<Rightarrow> cur # splitlines_from [] cs)
      else splitlines_from (cur @ [c]) cs)"

definition splitlines :: "string \<Rightarrow> string list" where
  "splitlines s = splitlines_from [] s"

text \<open>
  The arguments of an exception are arbitrary Python objects; \<^verbatim>\<open>" ".join(args)\<close>
  raises \<^verbatim>\<open>TypeError\<close> unless every one of them is a string.
\<close>

datatype pyobj = PyStr string | PyInt int

datatype exc_class = Skip | ToDo | Fail | BailOut | OtherException | OtherBaseException

text \<open>
  A raised exception: \<open>exc_class\<close> is the first \<^verbatim>\<open>except\<close> clause of the plan
  runner that matches it (\<open>OtherException\<close>: an instance of \<^verbatim>\<open>Exception\<close> that is
  none of the four signals; \<open>OtherBaseException\<close>: not an \<^verbatim>\<open>Exception\<close> at all,
  such as \<^verbatim>\<open>KeyboardInterrupt\<close> or \<^verbatim>\<open>SystemExit\<close>), \<open>args\<close> its
  \<^verbatim>\<open>args\<close> tuple and \<open>traceback\<close> the text \<^verbatim>\<open>sys.print_exception\<close> prints
  for it.
\<close>

record exception =
  exc_class :: exc_class
  args :: "pyobj list"
  traceback :: string

datatype error = Raised exception | TypeError

fun str_items :: "pyobj list \<Rightarrow> string list option" where
  "str_items [] = Some []"
| "str_items (PyStr s # xs) = map_option ((#) s) (str_items xs)"
| "str_items (PyInt i # xs) = None"

fun intersperse :: "string \<Rightarrow> string list \<Rightarrow> string" where
  "intersperse sep [] = []"
| "intersperse sep [s] = s"
| "intersperse sep (s # t # ts) = s @ sep @ intersperse sep (t # ts)"

definition join :: "string \<Rightarrow> pyobj list \<Rightarrow> error + string" where
  "join sep xs = (case str_items xs of None \<Rightarrow> Inl TypeError | Some ss \<Rightarrow> Inr (intersperse sep ss))"


text \<open>How an f-string renders an \<^verbatim>\<open>Optional[str]\<close>: \<^verbatim>\<open>None\<close> becomes the text \<^verbatim>\<open>None\<close>.\<close>

definition fmt_opt :: "string option \<Rightarrow> string" where
  "fmt_opt x = (case x of None \<Rightarrow> ''None'' | Some s \<Rightarrow> s)"

text \<open>Truth value of an \<^verbatim>\<open>Optional[str]\<close>: \<^verbatim>\<open>None\<close> and the empty string are false.\<close>

definition truthy :: "string option \<Rightarrow> bool" where
  "truthy x = (case x of None \<Rightarrow> False | Some s \<Rightarrow> s \<noteq> [])"

subsection \<open>Escaping and trimming\<close>

definition escape_string :: "string option \<Rightarrow> string option" where
  "escape_string string =
     (case string of
        None \<Rightarrow> None
      | Some s \<Rightarrow>
          if \<not> (s \<noteq> [] \<and> strip s \<noteq> []) then None
          else Some (strip (str_replace (CHR ''#'') [CHR 0x5C, CHR ''#'']
                             (str_replace (CHR 0x5C) [CHR 0x5C, CHR 0x5C] s))))"

definition trim_empty_to_none :: "string option \<Rightarrow> string option" where
  "trim_empty_to_none string =
     (case string of
        None \<Rightarrow> None
      | Some s \<Rightarrow> if \<not> (s \<noteq> [] \<and> strip s \<noteq> []) then None else Some (strip s))"

subsection \<open>Test points, plans and the observable world\<close>

text \<open>
  A test point is a callable without arguments. What the runner can observe of a call
  is whether it returns or which exception it raises, so a test function is a name
  together with that outcome.
\<close>

datatype outcome = Returns | Raises exception

datatype test_function = TestFunction (fn_name: string) (fn_outcome: outcome)

record plan =
  file_name :: string
  description :: "string option"
  skipped :: bool
  test_points :: "(test_function \<times> string option) list"

text \<open>\<^verbatim>\<open>Plan.__init__\<close> and \<^verbatim>\<open>Plan.add_test_point\<close>.\<close>

definition Plan :: "string \<Rightarrow> string option \<Rightarrow> bool \<Rightarrow> plan" where
  "Plan fname descr skip =
     \<lparr>file_name = fname, description = trim_empty_to_none descr,
      skipped = skip, test_points = []\<rparr>"

definition add_test_point :: "plan \<Rightarrow> test_function \<Rightarrow> string option \<Rightarrow> plan" where
  "add_test_point p test_point descr =
     p\<lparr>test_points := test_points p @ [(test_point, trim_empty_to_none descr)]\<rparr>"

text \<open>
  The world a run acts on is the sequence of its effects so far, oldest first:
  \<open>Write s\<close> is one call of \<^verbatim>\<open>stream.write\<close> with the string \<open>s\<close>, \<open>Call f\<close>
  one call of the test function \<open>f\<close>.
\<close>

datatype event = Write string | Call test_function

type_synonym world = "event list"

definition call :: "test_function \<Rightarrow> world \<Rightarrow> outcome \<times> world" where
  "call f w = (fn_outcome f, w @ [Call f])"

subsection \<open>The report writer\<close>

text \<open>
  \<^verbatim>\<open>_build_stream_writer\<close>: the returned writer puts the prefix before the string
  and a line feed after it, in one write. (The flush that follows every write is not
  recorded.)
\<close>

definition build_stream_writer :: "nat \<Rightarrow> string \<Rightarrow> world \<Rightarrow> world" where
  "build_stream_writer indentation_level =
     (let prefix = replicate indentation_level (CHR '' '')
      in (\<lambda>string w. w @ [Write (prefix @ string @ [CHR 0x0A])]))"

subsection \<open>Formatting\<close>

definition format_exception :: "exception \<Rightarrow> error + string" where
  "format_exception e =
     (case join '' '' (args e) of
        Inl err \<Rightarrow> Inl err
      | Inr message \<Rightarrow>
          Inr (''---'' @ [CHR 0x0A]
               @ ''exception: '' @ message @ [CHR 0x0A]
               @ ''traceback: |-'' @ [CHR 0x0A]
               @ concat (map (\<lambda>line. ''  '' @ line @ [CHR 0x0A]) (splitlines (traceback e)))
               @ ''...'' @ [CHR 0x0A]))"

datatype directive = SKIP | TODO

fun directive_text :: "directive \<Rightarrow> string" where
  "directive_text SKIP = ''SKIP''"
| "directive_text TODO = ''TODO''"

definition write_test_result ::
  "(string \<Rightarrow> world \<Rightarrow> world) \<Rightarrow> string option \<Rightarrow> nat \<Rightarrow> bool \<Rightarrow>
   directive option \<Rightarrow> string option \<Rightarrow> world \<Rightarrow> world" where
  "write_test_result stream_writer descr index success directive directive_description =
     (let string = (if success then ''ok'' else ''not ok'');
          string = string @ '' '' @ str_nat index;
          string = (if truthy descr then string @ '' - '' @ fmt_opt descr else string);
          string =
            (case directive of
               None \<Rightarrow> string
             | Some d \<Rightarrow>
                 (let string = string @ '' # '' @ directive_text d;
                      escaped_directive_description = escape_string directive_description
                  in if truthy escaped_directive_description
                     then string @ '' '' @ fmt_opt escaped_directive_description
                     else string))
      in stream_writer string)"

definition format_bailout_exception :: "exception \<Rightarrow> error + string" where
  "format_bailout_exception e =
     (case join '' '' (args e) of
        Inl err \<Rightarrow> Inl err
      | Inr message \<Rightarrow>
          Inr (strip (''Bail out! '' @ fmt_opt (escape_string (Some message))) @ [CHR 0x0A]))"

subsection \<open>The plan runner\<close>

text \<open>
  The body of the loop of \<^verbatim>\<open>_execute_test_plan\<close>: one test point is called and its
  outcome handled by the \<^verbatim>\<open>try\<close> statement. The result is the new value of
  \<^verbatim>\<open>success\<close>, or the exception that leaves the runner.
\<close>

definition execute_test_point ::
  "(string \<Rightarrow> world \<Rightarrow> world) \<Rightarrow> nat \<Rightarrow> test_function \<times> string option \<Rightarrow> bool \<Rightarrow>
   world \<Rightarrow> (error + bool) \<times> world" where
  "execute_test_point stream_writer index test success w =
     (let (test_function, test_description) = test;
          (result, w) = call test_function w
      in case result of
           Returns \<Rightarrow>
             (Inr success, write_test_result stream_writer test_description index True None None w)
         | Raises e \<Rightarrow>
             (case exc_class e of
                Skip \<Rightarrow>
                  (case join '' '' (args e) of
                     Inl err \<Rightarrow> (Inl err, w)
                   | Inr message \<Rightarrow>
                       (Inr success,
                        write_test_result stream_writer test_description index True
                          (Some SKIP) (Some message) w))
              | ToDo \<Rightarrow>
                  (case join '' '' (args e) of
                     Inl err \<Rightarrow> (Inl err, w)
                   | Inr message \<Rightarrow>
                       (Inr success,
                        write_test_result stream_writer test_description index False
                          (Some TODO) (Some message) w))
              | Fail \<Rightarrow>
                  (Inr False,
                   write_test_result stream_writer test_description index False None None w)
              | BailOut \<Rightarrow> (Inl (Raised e), w)
              | OtherException \<Rightarrow>
                  (let w = write_test_result stream_writer test_description index False
                             None None w
                   in case format_exception e of
                        Inl err \<Rightarrow> (Inl err, w)
                      | Inr block \<Rightarrow>
                          (Inr False,
                           fold (\<lambda>line. stream_writer (''  '' @ rstrip line))
                             (splitlines block) w))
              | OtherBaseException \<Rightarrow> (Inl (Raised e), w)))"

fun execute_test_points ::
  "(string \<Rightarrow> world \<Rightarrow> world) \<Rightarrow> nat \<Rightarrow> bool \<Rightarrow> (test_function \<times> string option) list \<Rightarrow>
   world \<Rightarrow> (error + bool) \<times> world" where
  "execute_test_points stream_writer index success [] w = (Inr success, w)"
| "execute_test_points stream_writer index success (test # tests) w =
     (case execute_test_point stream_writer index test success w of
        (Inl err, w') \<Rightarrow> (Inl err, w')
      | (Inr success', w') \<Rightarrow> execute_test_points stream_writer (Suc index) success' tests w')"

definition execute_test_plan ::
  "plan \<Rightarrow> (string \<Rightarrow> world \<Rightarrow> world) \<Rightarrow> world \<Rightarrow> (error + bool) \<times> world" where
  "execute_test_plan p stream_writer w =
     (if test_points p = [] \<or> skipped p then
        (let header = ''1..0'';
             header = (if truthy (description p)
                       then header @ '' # SKIP '' @ fmt_opt (escape_string (description p))
                       else header)
         in (Inr True, stream_writer header w))
      else
        execute_test_points stream_writer 1 True (test_points p)
          (stream_writer (''1..'' @ str_nat (length (test_points p))) w))"

subsection \<open>The session orchestrator\<close>

text \<open>
  The argument of \<^verbatim>\<open>execute_test_plans\<close> is a single \<^verbatim>\<open>Plan\<close> or a sequence of
  plans. The function tests the exact type of the argument, so four kinds of argument
  are told apart: an instance of \<^verbatim>\<open>Plan\<close> itself (\<open>OnePlan\<close>); an instance of a
  subclass of \<^verbatim>\<open>Plan\<close> (\<open>PlanSubclassInstance\<close>), for which
  \<^verbatim>\<open>type(plans) is Plan\<close> is false; a \<^verbatim>\<open>list\<close> or a \<^verbatim>\<open>tuple\<close>; and a
  sequence that is neither (an instance of a subclass of one of them, or of another
  sequence class).
\<close>

datatype plans_arg =
  OnePlan plan | PlanSubclassInstance plan | ListOrTuple "plan list" | OtherSequence "plan list"

text \<open>
  What \<^verbatim>\<open>len(plans)\<close> and the iteration over \<^verbatim>\<open>plans\<close> see in multi mode. An
  instance of a subclass of \<^verbatim>\<open>Plan\<close> has, like a \<^verbatim>\<open>Plan\<close>, neither a length
  nor an iterator: both raise \<^verbatim>\<open>TypeError\<close>. (A \<^verbatim>\<open>Plan\<close> itself never gets
  there.)
\<close>

definition plan_items :: "plans_arg \<Rightarrow> error + plan list" where
  "plan_items plans =
     (case plans of
        OnePlan p \<Rightarrow> Inl TypeError
      | PlanSubclassInstance p \<Rightarrow> Inl TypeError
      | ListOrTuple ps \<Rightarrow> Inr ps
      | OtherSequence ps \<Rightarrow> Inr ps)"

text \<open>
  The loop over the plans in multi mode. \<open>Inr (Some results)\<close>: the loop ran to its
  end; \<open>Inr None\<close>: a bail-out was written and the function returned early.
\<close>

fun execute_plans_loop ::
  "plan list \<Rightarrow> bool list \<Rightarrow> world \<Rightarrow> (error + bool list option) \<times> world" where
  "execute_plans_loop [] results w = (Inr (Some results), w)"
| "execute_plans_loop (p # ps) results w =
     (let w = build_stream_writer 0 (''# Tests for '' @ file_name p) w
      in case execute_test_plan p (build_stream_writer 4) w of
           (Inr success, w) \<Rightarrow> execute_plans_loop ps (results @ [success]) w
         | (Inl (Raised e), w) \<Rightarrow>
             if exc_class e = BailOut then
               (case format_bailout_exception e of
                  Inl err \<Rightarrow> (Inl err, w)
                | Inr line \<Rightarrow> (Inr None, build_stream_writer 0 line w))
             else (Inl (Raised e), w)
         | (Inl TypeError, w) \<Rightarrow> (Inl TypeError, w))"

fun write_rollup :: "nat \<Rightarrow> (plan \<times> bool) list \<Rightarrow> world \<Rightarrow> world" where
  "write_rollup index [] w = w"
| "write_rollup index ((p, success) # rest) w =
     (let result = (if success then ''ok'' else ''not ok'');
          result = result @ '' '' @ str_nat index;
          result = (if truthy (description p) then result @ '' - '' @ fmt_opt (description p)
                    else result)
      in write_rollup (Suc index) rest (build_stream_writer 0 result w))"

definition execute_test_plans :: "plans_arg \<Rightarrow> bool \<Rightarrow> world \<Rightarrow> (error + unit) \<times> world" where
  "execute_test_plans plans root_plan w =
     (let single =
            (case plans of
               OnePlan p \<Rightarrow> Some p
             | PlanSubclassInstance p \<Rightarrow> None
             | ListOrTuple ps \<Rightarrow> (case ps of [p] \<Rightarrow> Some p | _ \<Rightarrow> None)
             | OtherSequence ps \<Rightarrow> None);
          writer = build_stream_writer 0;
          w = writer ''TAP version 14'' w
      in case single of
           Some p \<Rightarrow>
             (case execute_test_plan p writer w of
                (Inr success, w) \<Rightarrow> (Inr (), w)
              | (Inl (Raised e), w) \<Rightarrow>
                  if exc_class e = BailOut then
                    (case format_bailout_exception e of
                       Inl err \<Rightarrow> (Inl err, w)
                     | Inr line \<Rightarrow> (Inr (), writer line w))
                  else (Inl (Raised e), w)
              | (Inl TypeError, w) \<Rightarrow> (Inl TypeError, w))
         | None \<Rightarrow>
             (case plan_items plans of
                Inl err \<Rightarrow> (Inl err, w)
              | Inr items \<Rightarrow>
                  (let w = (if root_plan then writer (''1..'' @ str_nat (length items)) w else w)
                   in case execute_plans_loop items [] w of
                        (Inl err, w) \<Rightarrow> (Inl err, w)
                      | (Inr None, w) \<Rightarrow> (Inr (), w)
                      | (Inr (Some results), w) \<Rightarrow>
                          (Inr (),
                           if root_plan then write_rollup 1 (zip items results) w else w))))"


section \<open>Notions used to state the properties\<close>

text \<open>
  The write of one line \<open>l\<close> at indentation \<open>k\<close>: the line behind \<open>k\<close> spaces and
  ended by a line feed.
\<close>

definition line :: "nat \<Rightarrow> string \<Rightarrow> event" where
  "line k l = Write (replicate k (CHR '' '') @ l @ [CHR 0x0A])"

text \<open>
  The escaping rule as the specification words it, character by character: a backslash
  becomes two backslashes, a hash sign becomes a backslash and a hash sign, every other
  character stays.
\<close>

definition tap_escape_char :: "char \<Rightarrow> string" where
  "tap_escape_char c =
     (if c = CHR 0x5C then [CHR 0x5C, CHR 0x5C]
      else if c = CHR ''#'' then [CHR 0x5C, CHR ''#'']
      else [c])"

definition tap_escape :: "string \<Rightarrow> string" where
  "tap_escape s = concat (map tap_escape_char s)"

text \<open>
  The parts of a result line after the number: the description, written only when it
  is a non-empty string, and the reason of a directive, written escaped and trimmed
  unless it is absent or blank.
\<close>

definition description_part :: "string option \<Rightarrow> string" where
  "description_part d = (case d of None \<Rightarrow> [] | Some t \<Rightarrow> if t = [] then [] else '' - '' @ t)"

definition reason_part :: "string option \<Rightarrow> string" where
  "reason_part r =
     (case r of None \<Rightarrow> [] | Some t \<Rightarrow> if list_all isspace t then [] else '' '' @ tap_escape (strip t))"

text \<open>A text without line feed and without carriage return.\<close>

definition one_line :: "string \<Rightarrow> bool" where
  "one_line s = (CHR 0x0A \<notin> set s \<and> CHR 0x0D \<notin> set s)"

text \<open>
  The lines of the diagnostic block of the specification for a message and a trace:
  the \<^verbatim>\<open>---\<close> and \<^verbatim>\<open>...\<close> delimiters, the line (or lines) of the message
  behind \<^verbatim>\<open>exception:\<close>, and the lines of the trace, each behind two spaces, under
  \<^verbatim>\<open>traceback: |-\<close>.
\<close>

definition diagnostic_block :: "string \<Rightarrow> string \<Rightarrow> string list" where
  "diagnostic_block message trace =
     ''---'' # splitlines (''exception: '' @ message @ [CHR 0x0A])
     @ ''traceback: |-'' # map (\<lambda>l. ''  '' @ l) (splitlines trace) @ [''...'']"

text \<open>
  The message of an exception, when its arguments are all strings: the arguments joined
  by single spaces.
\<close>

definition message_of :: "exception \<Rightarrow> string option" where
  "message_of e = (case join '' '' (args e) of Inl err \<Rightarrow> None | Inr m \<Rightarrow> Some m)"

text \<open>
  \<open>handled\<close>: the outcome of a test point is dealt with inside the loop of the
  runner, which then goes on to the next test point. \<open>failing\<close>: the outcome sets
  the success flag of the plan to false. \<open>passing\<close>: the result line says
  \<^verbatim>\<open>ok\<close>.
\<close>

fun handled :: "outcome \<Rightarrow> bool" where
  "handled Returns = True"
| "handled (Raises e) =
     (case exc_class e of
        Skip \<Rightarrow> message_of e \<noteq> None
      | ToDo \<Rightarrow> message_of e \<noteq> None
      | Fail \<Rightarrow> True
      | BailOut \<Rightarrow> False
      | OtherException \<Rightarrow> message_of e \<noteq> None
      | OtherBaseException \<Rightarrow> False)"

fun failing :: "outcome \<Rightarrow> bool" where
  "failing Returns = False"
| "failing (Raises e) = (exc_class e = Fail \<or> exc_class e = OtherException)"

fun passing :: "outcome \<Rightarrow> bool" where
  "passing Returns = True"
| "passing (Raises e) = (exc_class e = Skip)"

text \<open>
  The result line of the test point number \<open>i\<close> with description \<open>d\<close> and the given
  outcome, the lines of the diagnostic block that follows it, and the effects of one
  round of the loop at indentation \<open>k\<close>: the call, then the writes of these lines.
\<close>

fun directive_part :: "outcome \<Rightarrow> string" where
  "directive_part Returns = []"
| "directive_part (Raises e) =
     (if exc_class e = Skip then '' # SKIP'' @ reason_part (message_of e)
      else if exc_class e = ToDo then '' # TODO'' @ reason_part (message_of e)
      else [])"

definition result_line :: "nat \<Rightarrow> string option \<Rightarrow> outcome \<Rightarrow> string" where
  "result_line i d oc =
     (if passing oc then ''ok '' else ''not ok '') @ str_nat i @ description_part d
     @ directive_part oc"

fun diagnostic_lines :: "outcome \<Rightarrow> string list" where
  "diagnostic_lines Returns = []"
| "diagnostic_lines (Raises e) =
     (if exc_class e = OtherException then
        (case message_of e of
           None \<Rightarrow> []
         | Some m \<Rightarrow> map (\<lambda>l. ''  '' @ rstrip l) (diagnostic_block m (traceback e)))
      else [])"

definition point_events :: "nat \<Rightarrow> nat \<times> test_function \<times> string option \<Rightarrow> event list" where
  "point_events k x =
     (case x of (i, f, d) \<Rightarrow>
        Call f # map (line k) (result_line i d (fn_outcome f) # diagnostic_lines (fn_outcome f)))"

text \<open>
  The plan runner on its own: \<open>plan_result k p\<close> is what the runner returns (or the
  exception that leaves it) for the plan \<open>p\<close> and \<open>plan_events k p\<close> are its effects
  with a writer of indentation \<open>k\<close>, both independent of what happened before;
  \<open>returns k p\<close> says that the run returns. \<open>comment_line\<close> and \<open>rollup_line\<close> are
  the writes of the orchestrator for one plan.
\<close>

definition plan_result :: "nat \<Rightarrow> plan \<Rightarrow> error + bool" where
  "plan_result k p = fst (execute_test_plan p (build_stream_writer k) [])"

definition plan_events :: "nat \<Rightarrow> plan \<Rightarrow> event list" where
  "plan_events k p = snd (execute_test_plan p (build_stream_writer k) [])"

definition returns :: "nat \<Rightarrow> plan \<Rightarrow> bool" where
  "returns k p = (case plan_result k p of Inl err \<Rightarrow> False | Inr success \<Rightarrow> True)"

definition comment_line :: "plan \<Rightarrow> event" where
  "comment_line p = Write (''# Tests for '' @ file_name p @ [CHR 0x0A])"


section \<open>Properties\<close>

subsection \<open>Auxiliary facts: numbers, the writer, strings\<close>

lemma str_nat_0: "str_nat 0 = ''0''"
  by (simp add: str_nat.simps digit_def)

lemma str_nat_1: "str_nat (Suc 0) = ''1''"
  by (simp add: str_nat.simps digit_def)

lemma replicate_4: "replicate 4 c = [c, c, c, c]"
  by (simp add: eval_nat_numeral)

lemma writer_stream: "build_stream_writer k s w = w @ [line k s]"
  by (simp add: build_stream_writer_def line_def)

lemma fold_writer: "fold (build_stream_writer k) ls w = w @ map (line k) ls"
  by (induction ls arbitrary: w) (simp_all add: writer_stream)

lemma line_0: "line 0 s = Write (s @ [CHR 0x0A])"
  by (simp add: line_def)

lemma line_4: "line 4 s = Write (''    '' @ s @ [CHR 0x0A])"
  by (simp add: line_def replicate_4)

lemma strip_blank: "list_all isspace s \<Longrightarrow> strip s = []"
  by (auto simp add: strip_def lstrip_def rstrip_def list_all_iff dest: set_dropWhileD)

lemma escape_string_blank: "list_all isspace s \<Longrightarrow> escape_string (Some s) = None"
  by (simp add: escape_string_def strip_blank)

lemma dropWhile_all_space: "list_all isspace (dropWhile isspace s) \<Longrightarrow> list_all isspace s"
proof (cases "dropWhile isspace s")
  case Nil
  then show ?thesis by (simp add: list_all_iff dropWhile_eq_Nil_conv)
next
  case (Cons x xs)
  assume "list_all isspace (dropWhile isspace s)"
  with Cons have "isspace x" by simp
  moreover have "\<not> isspace x" using Cons hd_dropWhile [of isspace s] by simp
  ultimately show ?thesis by simp
qed

lemma strip_empty_iff: "strip s = [] \<longleftrightarrow> list_all isspace s"
proof
  assume "strip s = []"
  then have "list_all isspace (rev (dropWhile isspace s))"
    by (simp add: strip_def lstrip_def rstrip_def list_all_iff dropWhile_eq_Nil_conv)
  then have "list_all isspace (dropWhile isspace s)" by (simp add: list_all_iff)
  then show "list_all isspace s" by (rule dropWhile_all_space)
next
  assume "list_all isspace s"
  then show "strip s = []" by (rule strip_blank)
qed

lemma rstrip_Nil: "rstrip [] = []"
  by (simp add: rstrip_def)

lemma rstrip_Cons:
  "rstrip (x # xs) = (if isspace x \<and> rstrip xs = [] then [] else x # rstrip xs)"
  by (auto simp add: rstrip_def dropWhile_append dropWhile_eq_Nil_conv)

lemma rstrip_empty_iff: "rstrip s = [] \<longleftrightarrow> list_all isspace s"
  by (induction s) (simp_all add: rstrip_Nil rstrip_Cons)

lemma rstrip_idem: "rstrip (rstrip s) = rstrip s"
  by (simp add: rstrip_def)

lemma lstrip_rstrip_fixed:
  assumes "s = [] \<or> \<not> isspace (hd s)"
  shows "lstrip (rstrip s) = rstrip s"
proof (cases s)
  case Nil
  then show ?thesis by (simp add: rstrip_Nil lstrip_def)
next
  case (Cons x xs)
  with assms have "\<not> isspace x" by simp
  with Cons show ?thesis by (simp add: rstrip_Cons lstrip_def)
qed

lemma lstrip_head: "lstrip s = [] \<or> \<not> isspace (hd (lstrip s))"
  using hd_dropWhile [of isspace s] by (auto simp add: lstrip_def)

lemma strip_idem: "strip (strip s) = strip s"
  using lstrip_rstrip_fixed [OF lstrip_head, of s] by (simp add: strip_def rstrip_idem)

lemma replace_twice:
  "str_replace (CHR ''#'') [CHR 0x5C, CHR ''#''] (str_replace (CHR 0x5C) [CHR 0x5C, CHR 0x5C] s)
     = tap_escape s"
  by (induction s) (simp_all add: str_replace_def tap_escape_def tap_escape_char_def)

lemma dropWhile_concat_map:
  assumes "\<And>c. isspace c \<Longrightarrow> g c = [c]"
    and "\<And>c. \<not> isspace c \<Longrightarrow> g c \<noteq> [] \<and> \<not> isspace (hd (g c))"
  shows "dropWhile isspace (concat (map g s)) = concat (map g (dropWhile isspace s))"
proof (induction s)
  case Nil
  show ?case by simp
next
  case (Cons c cs)
  show ?case
  proof (cases "isspace c")
    case True
    with Cons assms(1) show ?thesis by simp
  next
    case False
    from assms(2) [OF False] obtain y ys where "g c = y # ys" and "\<not> isspace y"
      by (cases "g c") auto
    with False show ?thesis by simp
  qed
qed

lemma lstrip_tap_escape: "lstrip (tap_escape s) = tap_escape (lstrip s)"
  unfolding lstrip_def tap_escape_def
  by (rule dropWhile_concat_map) (auto simp add: tap_escape_char_def isspace_def)

lemma rev_tap_escape: "rev (tap_escape s) = concat (map (\<lambda>c. rev (tap_escape_char c)) (rev s))"
  by (induction s) (simp_all add: tap_escape_def)

lemma tap_escape_rev: "tap_escape (rev s) = rev (concat (map (\<lambda>c. rev (tap_escape_char c)) s))"
  by (induction s) (simp_all add: tap_escape_def)

lemma rstrip_tap_escape: "rstrip (tap_escape s) = tap_escape (rstrip s)"
proof -
  have "dropWhile isspace (concat (map (\<lambda>c. rev (tap_escape_char c)) (rev s)))
      = concat (map (\<lambda>c. rev (tap_escape_char c)) (dropWhile isspace (rev s)))"
    by (rule dropWhile_concat_map) (auto simp add: tap_escape_char_def isspace_def)
  then have "rev (dropWhile isspace (rev (tap_escape s)))
      = rev (concat (map (\<lambda>c. rev (tap_escape_char c)) (dropWhile isspace (rev s))))"
    by (simp add: rev_tap_escape)
  also have "\<dots> = tap_escape (rev (dropWhile isspace (rev s)))"
    by (rule tap_escape_rev [symmetric])
  finally show ?thesis by (simp add: rstrip_def)
qed

lemma strip_tap_escape: "strip (tap_escape s) = tap_escape (strip s)"
  by (simp add: strip_def lstrip_tap_escape rstrip_tap_escape)

lemma escape_string_Some:
  "escape_string (Some s) = (if list_all isspace s then None else Some (tap_escape (strip s)))"
proof (cases "list_all isspace s")
  case True
  then show ?thesis by (simp add: escape_string_blank)
next
  case False
  then have "strip s \<noteq> []" by (simp add: strip_empty_iff)
  moreover from this have "s \<noteq> []" by (auto simp add: strip_def lstrip_def rstrip_def)
  ultimately show ?thesis
    using False by (simp add: escape_string_def replace_twice strip_tap_escape)
qed

lemma tap_escape_empty_iff: "tap_escape s = [] \<longleftrightarrow> s = []"
  by (cases s) (simp_all add: tap_escape_def tap_escape_char_def)

lemma write_test_result_text:
  "write_test_result (build_stream_writer k) descr i success directive reason w =
     w @ [line k ((if success then ''ok'' else ''not ok'') @ '' '' @ str_nat i
                  @ description_part descr
                  @ (case directive of None \<Rightarrow> []
                     | Some d \<Rightarrow> '' # '' @ directive_text d @ reason_part reason))]"
proof -
  have r: "(if truthy (escape_string reason) then x @ '' '' @ fmt_opt (escape_string reason) else x)
      = x @ reason_part reason" for x
    by (cases reason)
      (simp_all add: escape_string_def [of None] escape_string_Some truthy_def fmt_opt_def
        reason_part_def tap_escape_empty_iff strip_empty_iff)
  have d: "(if truthy descr then x @ '' - '' @ fmt_opt descr else x) = x @ description_part descr"
    for x
    by (cases descr) (simp_all add: truthy_def fmt_opt_def description_part_def)
  show ?thesis
    unfolding write_test_result_def Let_def writer_stream d
    by (cases directive) (simp_all add: r)
qed

lemma trim_empty_to_none_Some:
  "trim_empty_to_none d = Some t \<Longrightarrow> t \<noteq> [] \<and> strip t = t \<and> \<not> list_all isspace t"
  by (cases d) (auto simp add: trim_empty_to_none_def strip_idem strip_empty_iff [symmetric] split: if_splits)


lemma splitlines_from_one_line:
  "one_line l \<Longrightarrow> splitlines_from cur (l @ CHR 0x0A # ys) = (cur @ l) # splitlines_from [] ys"
  by (induction l arbitrary: cur) (auto simp add: one_line_def)

lemma splitlines_from_lines:
  "one_line cur \<Longrightarrow> l \<in> set (splitlines_from cur s) \<Longrightarrow> one_line l"
proof (induction cur s rule: splitlines_from.induct)
  case (1 cur)
  then show ?case by (simp split: if_splits)
next
  case (2 cur c cs)
  have e: "one_line []" by (simp add: one_line_def)
  show ?case
  proof (cases "c = CHR 0x0A")
    case True
    with 2 e show ?thesis by auto
  next
    case nl: False
    show ?thesis
    proof (cases "c = CHR 0x0D")
      case True
      with nl 2 e show ?thesis by (cases cs) (auto split: if_splits)
    next
      case False
      with nl "2.prems"(1) have "one_line (cur @ [c])" by (simp add: one_line_def)
      with nl False 2 show ?thesis by simp
    qed
  qed
qed


lemma splitlines_from_feed:
  "splitlines_from cur (xs @ CHR 0x0A # ys)
     = splitlines_from cur (xs @ [CHR 0x0A]) @ splitlines_from [] ys"
proof (induction cur xs rule: splitlines_from.induct)
  case (1 cur)
  show ?case by simp
next
  case (2 cur c cs)
  show ?case
  proof (cases "c = CHR 0x0A")
    case True
    with 2 show ?thesis by simp
  next
    case nl: False
    show ?thesis
    proof (cases "c = CHR 0x0D")
      case cr: True
      show ?thesis
      proof (cases cs)
        case Nil
        with nl cr show ?thesis by simp
      next
        case (Cons d ds)
        show ?thesis
        proof (cases "d = CHR 0x0A")
          case True
          with nl cr Cons "2.IH" show ?thesis by simp
        next
          case False
          with nl cr Cons "2.IH" show ?thesis by simp
        qed
      qed
    next
      case False
      with nl 2 show ?thesis by simp
    qed
  qed
qed

lemma splitlines_one_line: "l \<in> set (splitlines s) \<Longrightarrow> one_line l"
  using splitlines_from_lines [of "[]" l s] by (simp add: splitlines_def one_line_def)

lemma splitlines_indented:
  "list_all one_line ls \<Longrightarrow>
   splitlines (concat (map (\<lambda>l. ''  '' @ l @ [CHR 0x0A]) ls) @ rest)
     = map (\<lambda>l. ''  '' @ l) ls @ splitlines rest"
proof (induction ls)
  case Nil
  show ?case by simp
next
  case (Cons l ls)
  then have "one_line (''  '' @ l)" by (simp add: one_line_def)
  from splitlines_from_one_line [OF this, of "[]"] Cons show ?case
    by (simp add: splitlines_def)
qed

lemma format_exception_lines:
  assumes "join '' '' (args e) = Inr message"
  shows "\<exists>block. format_exception e = Inr block
           \<and> splitlines block = diagnostic_block message (traceback e)"
proof -
  let ?T = "concat (map (\<lambda>line. ''  '' @ line @ [CHR 0x0A]) (splitlines (traceback e)))"
  let ?rest = "''traceback: |-'' @ CHR 0x0A # ?T @ ''...'' @ [CHR 0x0A]"
  have ol: "list_all one_line (splitlines (traceback e))"
    by (simp add: list_all_iff splitlines_one_line)
  have a: "splitlines (?T @ ''...'' @ [CHR 0x0A]) = map (\<lambda>l. ''  '' @ l) (splitlines (traceback e)) @ [''...'']"
    using splitlines_indented [OF ol, of "''...'' @ [CHR 0x0A]"] by (simp add: splitlines_def)
  have b: "splitlines ?rest = ''traceback: |-'' # splitlines (?T @ ''...'' @ [CHR 0x0A])"
    using splitlines_from_one_line [of "''traceback: |-''" "[]" "?T @ ''...'' @ [CHR 0x0A]"]
    by (simp add: splitlines_def one_line_def)
  have c: "splitlines ((''exception: '' @ message) @ CHR 0x0A # ?rest)
      = splitlines (''exception: '' @ message @ [CHR 0x0A]) @ splitlines ?rest"
    using splitlines_from_feed [of "[]" "''exception: '' @ message" ?rest]
    by (simp add: splitlines_def)
  have d: "splitlines (''---'' @ CHR 0x0A # (''exception: '' @ message) @ CHR 0x0A # ?rest)
      = ''---'' # splitlines ((''exception: '' @ message) @ CHR 0x0A # ?rest)"
    using splitlines_from_one_line [of "''---''" "[]" "(''exception: '' @ message) @ CHR 0x0A # ?rest"]
    by (simp add: splitlines_def one_line_def)
  have "format_exception e = Inr (''---'' @ CHR 0x0A # (''exception: '' @ message) @ CHR 0x0A # ?rest)"
    using assms by (simp add: format_exception_def)
  moreover have "splitlines (''---'' @ CHR 0x0A # (''exception: '' @ message) @ CHR 0x0A # ?rest)
      = diagnostic_block message (traceback e)"
    unfolding d c b a by (simp add: diagnostic_block_def)
  ultimately show ?thesis by blast
qed


subsection \<open>Auxiliary facts: the loop of the plan runner\<close>

lemma execute_test_point_handled:
  assumes "handled (fn_outcome f)"
  shows "execute_test_point (build_stream_writer k) i (f, d) success w =
     (Inr (success \<and> \<not> failing (fn_outcome f)),
      w @ point_events k (i, f, d))"
proof (cases "fn_outcome f")
  case Returns
  then show ?thesis
    by (simp add: execute_test_point_def call_def write_test_result_text point_events_def
        result_line_def )
next
  case (Raises e)
  show ?thesis
  proof (cases "exc_class e")
    case Skip
    with Raises assms obtain m where "join '' '' (args e) = Inr m"
      by (auto simp add: message_of_def split: sum.splits)
    with Raises Skip show ?thesis
      by (simp add: execute_test_point_def call_def write_test_result_text point_events_def
          result_line_def  message_of_def)
  next
    case ToDo
    with Raises assms obtain m where "join '' '' (args e) = Inr m"
      by (auto simp add: message_of_def split: sum.splits)
    with Raises ToDo show ?thesis
      by (simp add: execute_test_point_def call_def write_test_result_text point_events_def
          result_line_def  message_of_def)
  next
    case Fail
    with Raises show ?thesis
      by (simp add: execute_test_point_def call_def write_test_result_text point_events_def
          result_line_def )
  next
    case BailOut
    with Raises assms show ?thesis by simp
  next
    case OtherException
    with Raises assms obtain m where m: "join '' '' (args e) = Inr m"
      by (auto simp add: message_of_def split: sum.splits)
    from format_exception_lines [OF m] obtain block where
      b: "format_exception e = Inr block" "splitlines block = diagnostic_block m (traceback e)"
      by blast
    have "fold (\<lambda>line. build_stream_writer k (''  '' @ rstrip line)) (splitlines block) w'
        = fold (build_stream_writer k) (map (\<lambda>l. ''  '' @ rstrip l) (splitlines block)) w'" for w'
      by (simp add: fold_map comp_def)
    with Raises OtherException m b show ?thesis
      by (simp add: execute_test_point_def call_def write_test_result_text point_events_def
          result_line_def  message_of_def fold_writer)
  next
    case OtherBaseException
    with Raises assms show ?thesis by simp
  qed
qed

lemma execute_test_points_handled:
  assumes "list_all (\<lambda>tp. handled (fn_outcome (fst tp))) tps"
  shows "execute_test_points (build_stream_writer k) i success tps w =
     (Inr (success \<and> list_all (\<lambda>tp. \<not> failing (fn_outcome (fst tp))) tps),
      w @ concat (map (point_events k) (enumerate i tps)))"
  using assms
proof (induction tps arbitrary: i success w)
  case Nil
  show ?case by simp
next
  case (Cons tp tps)
  obtain f d where tp: "tp = (f, d)" by (cases tp)
  with Cons.prems have h: "handled (fn_outcome f)"
    and r: "list_all (\<lambda>tp. handled (fn_outcome (fst tp))) tps" by simp_all
  show ?case
    by (simp add: tp execute_test_point_handled [OF h] Cons.IH [OF r] conj_assoc)
qed

lemma execute_test_points_append:
  "execute_test_points sw i success (xs @ ys) w =
     (case execute_test_points sw i success xs w of
        (Inl err, w') \<Rightarrow> (Inl err, w')
      | (Inr success', w') \<Rightarrow> execute_test_points sw (i + length xs) success' ys w')"
  by (induction xs arbitrary: i success w) (auto split: prod.splits sum.splits)


lemma reach_test_point:
  assumes "\<not> skipped p" and "test_points p = pre @ tp # post"
    and "\<forall>x \<in> set pre. handled (fn_outcome (fst x))"
  shows "execute_test_plan p (build_stream_writer k) w =
     execute_test_points (build_stream_writer k) (length pre + 1)
       (list_all (\<lambda>x. \<not> failing (fn_outcome (fst x))) pre) (tp # post)
       (w @ line k (''1..'' @ str_nat (length (test_points p)))
          # concat (map (point_events k) (enumerate 1 pre)))"
proof -
  from assms(3) have h: "list_all (\<lambda>x. handled (fn_outcome (fst x))) pre"
    by (simp add: list_all_iff)
  from assms(1,2) have "execute_test_plan p (build_stream_writer k) w =
      execute_test_points (build_stream_writer k) 1 True (pre @ tp # post)
        (w @ [line k (''1..'' @ str_nat (length (test_points p)))])"
    by (simp add: execute_test_plan_def writer_stream)
  then show ?thesis
    by (simp add: execute_test_points_append execute_test_points_handled [OF h])
qed

lemma execute_test_points_flag:
  assumes "\<forall>x \<in> set tps. handled (fn_outcome (fst x))"
  shows "fst (execute_test_points (build_stream_writer k) i success tps w)
     = Inr (success \<and> list_all (\<lambda>x. \<not> failing (fn_outcome (fst x))) tps)"
proof -
  from assms have h: "list_all (\<lambda>x. handled (fn_outcome (fst x))) tps"
    by (simp add: list_all_iff)
  show ?thesis by (simp add: execute_test_points_handled [OF h])
qed


subsection \<open>Auxiliary facts: the effects of a run are appended\<close>

lemma fold_writer_indented:
  "fold (\<lambda>l. build_stream_writer k (g l)) ls w = w @ map (\<lambda>l. line k (g l)) ls"
  by (induction ls arbitrary: w) (simp_all add: writer_stream)

lemma execute_test_point_frame:
  "execute_test_point (build_stream_writer k) i tp s w =
     (fst (execute_test_point (build_stream_writer k) i tp s []),
      w @ snd (execute_test_point (build_stream_writer k) i tp s []))"
proof -
  obtain f d where tp: "tp = (f, d)" by (cases tp)
  show ?thesis
  proof (cases "fn_outcome f")
    case Returns
    then show ?thesis
      by (simp add: tp execute_test_point_def call_def write_test_result_text)
  next
    case (Raises e)
    then show ?thesis
      by (cases "exc_class e")
        (simp_all add: tp execute_test_point_def call_def write_test_result_text
          fold_writer_indented Let_def split: sum.splits)
  qed
qed

lemma execute_test_points_frame:
  "execute_test_points (build_stream_writer k) i s tps w =
     (fst (execute_test_points (build_stream_writer k) i s tps []),
      w @ snd (execute_test_points (build_stream_writer k) i s tps []))"
proof (induction tps arbitrary: i s w)
  case Nil
  show ?case by simp
next
  case (Cons tp tps)
  obtain r v where st: "execute_test_point (build_stream_writer k) i tp s [] = (r, v)"
    by (cases "execute_test_point (build_stream_writer k) i tp s []")
  then have stw: "execute_test_point (build_stream_writer k) i tp s w = (r, w @ v)"
    using execute_test_point_frame [of k i tp s w] by simp
  show ?case
  proof (cases r)
    case (Inl err)
    with st stw show ?thesis by simp
  next
    case (Inr s')
    with st stw show ?thesis
      using Cons.IH [of "Suc i" s' "w @ v"] Cons.IH [of "Suc i" s' v] by simp
  qed
qed

lemma execute_test_plan_frame:
  "execute_test_plan p (build_stream_writer k) w = (plan_result k p, w @ plan_events k p)"
proof (cases "test_points p = [] \<or> skipped p")
  case True
  then show ?thesis
    by (simp add: plan_result_def plan_events_def execute_test_plan_def writer_stream Let_def)
next
  case False
  then show ?thesis
    using execute_test_points_frame [of k 1 True "test_points p"
        "w @ [line k (''1..'' @ str_nat (length (test_points p)))]"]
      execute_test_points_frame [of k 1 True "test_points p"
        "[line k (''1..'' @ str_nat (length (test_points p)))]"]
    by (simp add: plan_result_def plan_events_def execute_test_plan_def writer_stream)
qed


lemma execute_plans_loop_bailout:
  assumes "\<forall>q \<in> set before. returns 4 q"
    and "plan_result 4 p = Inl (Raised e)" and "exc_class e = BailOut"
    and "format_bailout_exception e = Inr text"
  shows "execute_plans_loop (before @ p # after) results w =
     (Inr None,
      w @ concat (map (\<lambda>q. comment_line q # plan_events 4 q) before)
        @ comment_line p # plan_events 4 p @ [Write (text @ [CHR 0x0A])])"
  using assms(1)
proof (induction before arbitrary: results w)
  case Nil
  from assms(2,3,4) show ?case
    by (simp add: writer_stream line_0 execute_test_plan_frame comment_line_def)
next
  case (Cons q qs)
  from Cons.prems obtain s where s: "plan_result 4 q = Inr s"
    by (auto simp add: returns_def split: sum.splits)
  from Cons.prems have r: "\<forall>q \<in> set qs. returns 4 q" by simp
  show ?case
    by (simp add: writer_stream line_0 execute_test_plan_frame s Cons.IH [OF r] comment_line_def)
qed



lemma rstrip_append_fixed:
  assumes "x \<noteq> []" and "rstrip x = x"
  shows "rstrip (a @ x) = a @ x"
proof -
  from assms have "\<not> list_all isspace x" using rstrip_empty_iff [of x] by simp
  then have "\<not> (\<forall>c \<in> set (rev x). isspace c)" by (simp add: list_all_iff)
  then have "dropWhile isspace (rev x @ rev a) = dropWhile isspace (rev x) @ rev a"
    by (auto simp add: dropWhile_append)
  then have "rstrip (a @ x) = a @ rstrip x" by (simp add: rstrip_def)
  with assms(2) show ?thesis by simp
qed

lemma format_bailout_exception_text:
  assumes "join '' '' (args e) = Inr msg"
  shows "format_bailout_exception e =
     Inr (''Bail out! '' @ (if list_all isspace msg then ''None'' else tap_escape (strip msg))
          @ [CHR 0x0A])"
proof (cases "list_all isspace msg")
  case True
  with assms show ?thesis
    by (simp add: format_bailout_exception_def escape_string_blank fmt_opt_def
        strip_def lstrip_def rstrip_def isspace_def)
next
  case False
  let ?x = "tap_escape (strip msg)"
  from False have "strip msg \<noteq> []" by (simp add: strip_empty_iff)
  then have x: "?x \<noteq> []" by (simp add: tap_escape_empty_iff)
  have "rstrip ?x = tap_escape (rstrip (strip msg))" by (rule rstrip_tap_escape)
  then have r: "rstrip ?x = ?x" by (simp add: strip_def rstrip_idem)
  have "strip (''Bail out! '' @ ?x) = rstrip (''Bail out! '' @ ?x)"
    by (simp add: strip_def lstrip_def isspace_def)
  also have "\<dots> = ''Bail out! '' @ ?x" by (rule rstrip_append_fixed [OF x r])
  finally show ?thesis
    using assms False by (simp add: format_bailout_exception_def escape_string_Some fmt_opt_def)
qed


lemma multi_mode_single:
  assumes "plans = ListOrTuple ps \<and> length ps \<noteq> 1 \<or> plans = OtherSequence ps"
  shows "execute_test_plans plans root_plan w =
     (let w = w @ [Write ''TAP version 14\<newline>''];
          w = (if root_plan then w @ [Write (''1..'' @ str_nat (length ps) @ ''\<newline>'')] else w)
      in case execute_plans_loop ps [] w of
           (Inl err, w) \<Rightarrow> (Inl err, w)
         | (Inr None, w) \<Rightarrow> (Inr (), w)
         | (Inr (Some results), w) \<Rightarrow>
             (Inr (), if root_plan then write_rollup 1 (zip ps results) w else w))"
proof -
  have items: "plan_items plans = Inr ps"
    using assms by (auto simp add: plan_items_def)
  have single: "(case plans of
         OnePlan p \<Rightarrow> Some p
       | PlanSubclassInstance p \<Rightarrow> None
       | ListOrTuple ps \<Rightarrow> (case ps of [p] \<Rightarrow> Some p | _ \<Rightarrow> None)
       | OtherSequence ps \<Rightarrow> None) = None"
    using assms by (cases ps) (auto split: list.splits)
  show ?thesis
    unfolding execute_test_plans_def Let_def items single
    by (simp add: writer_stream line_0)
qed

text \<open>The definitions that evaluate a run on concrete plans.\<close>

lemmas run_simps =
  execute_test_plans_def plan_items_def execute_test_plan_def execute_test_point_def call_def
  write_test_result_text description_part_def reason_part_def format_exception_def
  format_bailout_exception_def escape_string_def fmt_opt_def join_def writer_stream line_0 line_4
  Plan_def add_test_point_def trim_empty_to_none_def str_nat.simps digit_def isspace_def
  strip_def lstrip_def rstrip_def tap_escape_def tap_escape_char_def splitlines_def
  returns_def plan_result_def plan_events_def truthy_def Let_def

subsection \<open>A test point that raises ToDo\<close>

text \<open>
  Claim C1, as stated, fails in its last part: the handler of \<^verbatim>\<open>ToDo\<close> writes the
  \<^verbatim>\<open>not ok\<close> line but does not touch the success flag. A plan whose only test
  point raises \<^verbatim>\<open>ToDo("not implemented")\<close> returns true.
\<close>

theorem todo_test_point_counterexample:
  "execute_test_plan
     (add_test_point (Plan ''test_a.py'' None False)
        (TestFunction ''later''
           (Raises \<lparr>exc_class = ToDo, args = [PyStr ''not implemented''], traceback = []\<rparr>)) None)
     (build_stream_writer 0) []
   = (Inr True,
      [Write ''1..1\<newline>'',
       Call (TestFunction ''later''
              (Raises \<lparr>exc_class = ToDo, args = [PyStr ''not implemented''], traceback = []\<rparr>)),
       Write ''not ok 1 # TODO not implemented\<newline>''])"
  by (simp add: execute_test_plan_def execute_test_point_def call_def Plan_def add_test_point_def
      trim_empty_to_none_def write_test_result_text description_part_def reason_part_def join_def
      writer_stream line_0 str_nat.simps digit_def isspace_def strip_def lstrip_def rstrip_def
      tap_escape_def tap_escape_char_def)

text \<open>
  Claim C1, amended. In a plan that is not skipped, let the test point at the 1-based
  index \<open>i = length pre + 1\<close> raise \<^verbatim>\<open>ToDo\<close> with string arguments that join to
  \<open>reason\<close>, the test points before it having outcomes the runner handles. Then the
  runner calls it and writes the line \<^verbatim>\<open>not ok i\<close>, the description if there is
  one, and the directive \<^verbatim>\<open> # TODO\<close> with the escaped reason (nothing after
  \<^verbatim>\<open>TODO\<close> when the reason is blank); it goes on to the next test point with the
  success flag as the earlier test points left it. So the flag the plan returns is not
  changed by this test point: when the later outcomes are handled too, the plan returns
  true exactly when no test point before or after it fails.
\<close>

theorem todo_test_point:
  assumes "\<not> skipped p" and "test_points p = pre @ (f, d) # post"
    and "\<forall>tp \<in> set pre. handled (fn_outcome (fst tp))"
    and "fn_outcome f = Raises e" and "exc_class e = ToDo"
    and "join '' '' (args e) = Inr reason"
  shows "execute_test_plan p (build_stream_writer k) w =
       execute_test_points (build_stream_writer k) (length pre + 2)
         (list_all (\<lambda>tp. \<not> failing (fn_outcome (fst tp))) pre) post
         (w @ line k (''1..'' @ str_nat (length (test_points p)))
            # concat (map (point_events k) (enumerate 1 pre))
            @ [Call f,
               line k (''not ok '' @ str_nat (length pre + 1) @ description_part d
                       @ '' # TODO'' @ reason_part (Some reason))])
     \<and> ((\<forall>tp \<in> set post. handled (fn_outcome (fst tp))) \<longrightarrow>
          fst (execute_test_plan p (build_stream_writer k) w)
            = Inr (list_all (\<lambda>tp. \<not> failing (fn_outcome (fst tp))) (pre @ post)))"
proof -
  have step: "execute_test_point (build_stream_writer k) i (f, d) s w' =
      (Inr s, w' @ [Call f, line k (''not ok '' @ str_nat i @ description_part d
                       @ '' # TODO'' @ reason_part (Some reason))])" for i s w'
    using assms(4,5,6)
    by (simp add: execute_test_point_def call_def write_test_result_text)
  have eq: "execute_test_plan p (build_stream_writer k) w =
       execute_test_points (build_stream_writer k) (length pre + 2)
         (list_all (\<lambda>tp. \<not> failing (fn_outcome (fst tp))) pre) post
         (w @ line k (''1..'' @ str_nat (length (test_points p)))
            # concat (map (point_events k) (enumerate 1 pre))
            @ [Call f,
               line k (''not ok '' @ str_nat (length pre + 1) @ description_part d
                       @ '' # TODO'' @ reason_part (Some reason))])"
    by (simp add: reach_test_point [OF assms(1,2,3)] step)
  show ?thesis
  proof (intro conjI impI)
    show "execute_test_plan p (build_stream_writer k) w =
       execute_test_points (build_stream_writer k) (length pre + 2)
         (list_all (\<lambda>tp. \<not> failing (fn_outcome (fst tp))) pre) post
         (w @ line k (''1..'' @ str_nat (length (test_points p)))
            # concat (map (point_events k) (enumerate 1 pre))
            @ [Call f,
               line k (''not ok '' @ str_nat (length pre + 1) @ description_part d
                       @ '' # TODO'' @ reason_part (Some reason))])"
      by (rule eq)
  next
    assume "\<forall>tp \<in> set post. handled (fn_outcome (fst tp))"
    then show "fst (execute_test_plan p (build_stream_writer k) w)
            = Inr (list_all (\<lambda>tp. \<not> failing (fn_outcome (fst tp))) (pre @ post))"
      by (simp add: eq execute_test_points_flag)
  qed
qed

theorem todo_test_point_witness:
  "execute_test_plan
     (add_test_point
        (add_test_point
           (add_test_point (Plan ''test_a.py'' None False) (TestFunction ''t1'' Returns) None)
           (TestFunction ''t2''
              (Raises \<lparr>exc_class = ToDo, args = [PyStr ''not'', PyStr ''yet #1''], traceback = []\<rparr>))
           (Some '' parse ''))
        (TestFunction ''t3'' Returns) None)
     (build_stream_writer 0) []
   = (Inr True,
      [Write ''1..3\<newline>'',
       Call (TestFunction ''t1'' Returns),
       Write ''ok 1\<newline>'',
       Call (TestFunction ''t2''
          (Raises \<lparr>exc_class = ToDo, args = [PyStr ''not'', PyStr ''yet #1''], traceback = []\<rparr>)),
       Write (''not ok 2 - parse # TODO not yet '' @ [CHR 0x5C] @ ''#1\<newline>''),
       Call (TestFunction ''t3'' Returns),
       Write ''ok 3\<newline>''])"
  using todo_test_point
    [where p = "add_test_point
        (add_test_point
           (add_test_point (Plan ''test_a.py'' None False) (TestFunction ''t1'' Returns) None)
           (TestFunction ''t2''
              (Raises \<lparr>exc_class = ToDo, args = [PyStr ''not'', PyStr ''yet #1''], traceback = []\<rparr>))
           (Some '' parse ''))
        (TestFunction ''t3'' Returns) None"
      and pre = "[(TestFunction ''t1'' Returns, None)]"
      and f = "TestFunction ''t2''
           (Raises \<lparr>exc_class = ToDo, args = [PyStr ''not'', PyStr ''yet #1''], traceback = []\<rparr>)"
      and d = "Some ''parse''"
      and post = "[(TestFunction ''t3'' Returns, None)]"
      and e = "\<lparr>exc_class = ToDo, args = [PyStr ''not'', PyStr ''yet #1''], traceback = []\<rparr>"
      and reason = "''not yet #1''" and k = 0 and w = "[]"]
  by (simp add: run_simps point_events_def result_line_def del: execute_test_plan_def)

subsection \<open>Bailing out\<close>

text \<open>
  Claim C2 at a \<^verbatim>\<open>BailOut\<close> whose argument is not a string. In a multi-mode run of
  two plans with the root-plan flag, the only test point of the first plan raises
  \<^verbatim>\<open>BailOut(5)\<close>. The runner re-raises it and the orchestrator catches it, but
  \<^verbatim>\<open>_format_bailout_exception\<close> joins the arguments with
  \<^verbatim>\<open>' '.join(exception.args)\<close>, which raises \<^verbatim>\<open>TypeError\<close> inside the handler:
  no bail-out line is written and \<^verbatim>\<open>execute_test_plans\<close> is left by the
  \<^verbatim>\<open>TypeError\<close>. (The second plan is not run and no roll-up line is written.)
\<close>

theorem bailout_non_string_argument:
  "execute_test_plans
     (ListOrTuple
        [add_test_point (Plan ''test_a.py'' None False)
           (TestFunction ''hot''
              (Raises \<lparr>exc_class = BailOut, args = [PyInt 5], traceback = []\<rparr>)) None,
         add_test_point (Plan ''test_b.py'' None False) (TestFunction ''t2'' Returns) None])
     True []
   = (Inl TypeError,
      [Write ''TAP version 14\<newline>'',
       Write ''1..2\<newline>'',
       Write ''# Tests for test_a.py\<newline>'',
       Write ''    1..1\<newline>'',
       Call (TestFunction ''hot''
              (Raises \<lparr>exc_class = BailOut, args = [PyInt 5], traceback = []\<rparr>))])"
  by (simp add: run_simps)

text \<open>
  With string arguments the code does what the claim says. When a test point raises
  \<^verbatim>\<open>BailOut\<close> (the test points before it in the plan having been handled),
  \<^verbatim>\<open>_execute_test_plan\<close> writes no result line for it and calls no later test
  point: the same exception leaves the runner. In multi mode (the plans before the
  bailing one having returned, and the arguments of the \<^verbatim>\<open>BailOut\<close> being strings
  that join to \<open>msg\<close>), the last effect of \<^verbatim>\<open>execute_test_plans\<close> is the write of
  the bail-out line (which the formatter ends with a line feed, to which the writer adds
  its own): nothing is written for the plans after it, none of their test points is
  called, and no roll-up line is written, whether the root-plan flag is set or not.
\<close>

theorem bailout_ends_run:
  assumes "\<not> skipped p" and "test_points p = pre @ (f, d) # post"
    and "\<forall>tp \<in> set pre. handled (fn_outcome (fst tp))"
    and "fn_outcome f = Raises e" and "exc_class e = BailOut"
    and "join '' '' (args e) = Inr msg"
    and "\<forall>q \<in> set before. returns 4 q"
    and "plans = ListOrTuple (before @ p # after) \<and> (before \<noteq> [] \<or> after \<noteq> [])
         \<or> plans = OtherSequence (before @ p # after)"
  shows "execute_test_plan p (build_stream_writer k) w =
       (Inl (Raised e),
        w @ line k (''1..'' @ str_nat (length (test_points p)))
          # concat (map (point_events k) (enumerate 1 pre)) @ [Call f])
     \<and> execute_test_plans plans root_plan w =
       (Inr (),
        w @ Write ''TAP version 14\<newline>''
          # (if root_plan
             then [Write (''1..'' @ str_nat (length before + 1 + length after) @ ''\<newline>'')]
             else [])
          @ concat (map (\<lambda>q. Write (''# Tests for '' @ file_name q @ ''\<newline>'')
                               # plan_events 4 q) before)
          @ Write (''# Tests for '' @ file_name p @ ''\<newline>'')
          # line 4 (''1..'' @ str_nat (length (test_points p)))
          # concat (map (point_events 4) (enumerate 1 pre))
          @ [Call f,
             Write (''Bail out! ''
                    @ (if list_all isspace msg then ''None'' else tap_escape (strip msg))
                    @ ''\<newline>\<newline>'')])"
proof -
  have run: "execute_test_plan p (build_stream_writer j) v =
       (Inl (Raised e),
        v @ line j (''1..'' @ str_nat (length (test_points p)))
          # concat (map (point_events j) (enumerate 1 pre)) @ [Call f])" for j v
    using assms(4,5)
    by (simp add: reach_test_point [OF assms(1,2,3)] execute_test_point_def call_def)
  from run [of 4 "[]"] have res: "plan_result 4 p = Inl (Raised e)"
    and ev: "plan_events 4 p = line 4 (''1..'' @ str_nat (length (test_points p)))
          # concat (map (point_events 4) (enumerate 1 pre)) @ [Call f]"
    by (simp_all add: plan_result_def plan_events_def)
  have c: "comment_line = (\<lambda>p. Write (''# Tests for '' @ file_name p @ ''\<newline>''))"
    by (simp add: comment_line_def fun_eq_iff)
  from assms(8) have m: "plans = ListOrTuple (before @ p # after) \<and> length (before @ p # after) \<noteq> 1
      \<or> plans = OtherSequence (before @ p # after)"
    by auto
  have "execute_test_plans plans root_plan w =
       (Inr (),
        w @ Write ''TAP version 14\<newline>''
          # (if root_plan
             then [Write (''1..'' @ str_nat (length before + 1 + length after) @ ''\<newline>'')]
             else [])
          @ concat (map (\<lambda>q. Write (''# Tests for '' @ file_name q @ ''\<newline>'')
                               # plan_events 4 q) before)
          @ Write (''# Tests for '' @ file_name p @ ''\<newline>'')
          # line 4 (''1..'' @ str_nat (length (test_points p)))
          # concat (map (point_events 4) (enumerate 1 pre))
          @ [Call f,
             Write (''Bail out! ''
                    @ (if list_all isspace msg then ''None'' else tap_escape (strip msg))
                    @ ''\<newline>\<newline>'')])"
    by (simp add: multi_mode_single [OF m]
        execute_plans_loop_bailout [OF assms(7) res assms(5) format_bailout_exception_text [OF assms(6)]]
        ev c)
  with run [of k w] show ?thesis by simp
qed

theorem bailout_ends_run_witness:
  "execute_test_plan
     (add_test_point
        (add_test_point
           (add_test_point (Plan ''test_b.py'' None False) (TestFunction ''t2'' Returns) None)
           (TestFunction ''hot''
              (Raises \<lparr>exc_class = BailOut, args = [PyStr ''overheat''], traceback = []\<rparr>)) None)
        (TestFunction ''t4'' Returns) None)
     (build_stream_writer 4) []
   = (Inl (Raised \<lparr>exc_class = BailOut, args = [PyStr ''overheat''], traceback = []\<rparr>),
      [Write ''    1..3\<newline>'',
       Call (TestFunction ''t2'' Returns),
       Write ''    ok 1\<newline>'',
       Call (TestFunction ''hot''
              (Raises \<lparr>exc_class = BailOut, args = [PyStr ''overheat''], traceback = []\<rparr>))])
   \<and> execute_test_plans
     (ListOrTuple
        [add_test_point (Plan ''test_a.py'' None False) (TestFunction ''t1'' Returns) None,
         add_test_point
           (add_test_point
              (add_test_point (Plan ''test_b.py'' None False) (TestFunction ''t2'' Returns) None)
              (TestFunction ''hot''
                 (Raises \<lparr>exc_class = BailOut, args = [PyStr ''overheat''], traceback = []\<rparr>)) None)
           (TestFunction ''t4'' Returns) None,
         add_test_point (Plan ''test_c.py'' None False) (TestFunction ''t3'' Returns) None])
     True []
   = (Inr (),
      [Write ''TAP version 14\<newline>'',
       Write ''1..3\<newline>'',
       Write ''# Tests for test_a.py\<newline>'',
       Write ''    1..1\<newline>'',
       Call (TestFunction ''t1'' Returns),
       Write ''    ok 1\<newline>'',
       Write ''# Tests for test_b.py\<newline>'',
       Write ''    1..3\<newline>'',
       Call (TestFunction ''t2'' Returns),
       Write ''    ok 1\<newline>'',
       Call (TestFunction ''hot''
              (Raises \<lparr>exc_class = BailOut, args = [PyStr ''overheat''], traceback = []\<rparr>)),
       Write ''Bail out! overheat\<newline>\<newline>''])"
  using bailout_ends_run
    [where p = "add_test_point
           (add_test_point
              (add_test_point (Plan ''test_b.py'' None False) (TestFunction ''t2'' Returns) None)
              (TestFunction ''hot''
                 (Raises \<lparr>exc_class = BailOut, args = [PyStr ''overheat''], traceback = []\<rparr>)) None)
           (TestFunction ''t4'' Returns) None"
      and pre = "[(TestFunction ''t2'' Returns, None)]"
      and f = "TestFunction ''hot''
              (Raises \<lparr>exc_class = BailOut, args = [PyStr ''overheat''], traceback = []\<rparr>)"
      and d = None
      and post = "[(TestFunction ''t4'' Returns, None)]"
      and e = "\<lparr>exc_class = BailOut, args = [PyStr ''overheat''], traceback = []\<rparr>"
      and msg = "''overheat''"
      and before = "[add_test_point (Plan ''test_a.py'' None False) (TestFunction ''t1'' Returns) None]"
      and plans = "ListOrTuple
        [add_test_point (Plan ''test_a.py'' None False) (TestFunction ''t1'' Returns) None,
         add_test_point
           (add_test_point
              (add_test_point (Plan ''test_b.py'' None False) (TestFunction ''t2'' Returns) None)
              (TestFunction ''hot''
                 (Raises \<lparr>exc_class = BailOut, args = [PyStr ''overheat''], traceback = []\<rparr>)) None)
           (TestFunction ''t4'' Returns) None,
         add_test_point (Plan ''test_c.py'' None False) (TestFunction ''t3'' Returns) None]"
      and after = "[add_test_point (Plan ''test_c.py'' None False) (TestFunction ''t3'' Returns) None]"
      and k = 4 and w = "[]" and root_plan = True]
  by (simp add: run_simps point_events_def result_line_def del: execute_test_plans_def)

subsection \<open>The lines of a plan that runs to its end\<close>

text \<open>
  Claim C3, as stated, fails: a test point that raises \<^verbatim>\<open>BailOut\<close> ends the run of
  the plan, so the test points after it are not called and neither it nor they get a
  result line. Here the first of two test points bails out: only the plan line is
  written and only the first test function is called.
\<close>

theorem plan_runs_to_completion_counterexample:
  "execute_test_plan
     (add_test_point
        (add_test_point (Plan ''test_a.py'' None False)
           (TestFunction ''first''
              (Raises \<lparr>exc_class = BailOut, args = [PyStr ''stop''], traceback = []\<rparr>)) None)
        (TestFunction ''second'' Returns) None)
     (build_stream_writer 0) []
   = (Inl (Raised \<lparr>exc_class = BailOut, args = [PyStr ''stop''], traceback = []\<rparr>),
      [Write ''1..2\<newline>'',
       Call (TestFunction ''first''
              (Raises \<lparr>exc_class = BailOut, args = [PyStr ''stop''], traceback = []\<rparr>))])"
  by (simp add: execute_test_plan_def execute_test_point_def call_def Plan_def add_test_point_def
      trim_empty_to_none_def writer_stream line_0 str_nat.simps digit_def)


text \<open>
  Claim C3, amended. For every plan that is not skipped, has \<open>N \<ge> 1\<close> test points, and
  all of whose test points have an outcome the runner handles (none raises
  \<^verbatim>\<open>BailOut\<close> or an exception that is not an \<^verbatim>\<open>Exception\<close>, and the arguments of
  the exceptions whose message is used are strings), \<^verbatim>\<open>_execute_test_plan\<close> first
  writes the plan line \<^verbatim>\<open>1..N\<close>; then, for the test points in registration order
  and numbered \<open>1\<close> to \<open>N\<close>, it calls the test function and writes exactly one
  result line bearing that number, followed by the lines of the diagnostic block when
  the outcome is an unhandled error. The returned flag is true exactly when no outcome
  is a failure.
\<close>

theorem plan_runs_to_completion:
  assumes "\<not> skipped p" and "test_points p \<noteq> []"
    and "\<forall>tp \<in> set (test_points p). handled (fn_outcome (fst tp))"
  shows "execute_test_plan p (build_stream_writer k) w =
     (Inr (list_all (\<lambda>tp. \<not> failing (fn_outcome (fst tp))) (test_points p)),
      w @ line k (''1..'' @ str_nat (length (test_points p)))
        # concat (map (\<lambda>(i, f, d).
              Call f # line k (result_line i d (fn_outcome f))
                # map (line k) (diagnostic_lines (fn_outcome f)))
            (enumerate 1 (test_points p))))"
proof -
  from assms(3) have h: "list_all (\<lambda>x. handled (fn_outcome (fst x))) (test_points p)"
    by (simp add: list_all_iff)
  have e: "point_events k = (\<lambda>(i, f, d).
      Call f # line k (result_line i d (fn_outcome f))
        # map (line k) (diagnostic_lines (fn_outcome f)))"
    by (auto simp add: point_events_def fun_eq_iff)
  from assms(1,2) show ?thesis
    by (simp add: execute_test_plan_def writer_stream execute_test_points_handled [OF h] e)
qed

theorem plan_runs_to_completion_witness:
  "execute_test_plan
     (add_test_point
        (add_test_point
           (add_test_point (Plan ''test_a.py'' None False) (TestFunction ''t1'' Returns) (Some ''adds''))
           (TestFunction ''t2''
              (Raises \<lparr>exc_class = Skip, args = [PyStr ''no'', PyStr ''hw''], traceback = []\<rparr>)) None)
        (TestFunction ''t3''
           (Raises \<lparr>exc_class = OtherException, args = [PyStr ''boom''],
                     traceback = ''ValueError: boom\<newline>''\<rparr>)) None)
     (build_stream_writer 0) []
   = (Inr False,
      [Write ''1..3\<newline>'',
       Call (TestFunction ''t1'' Returns),
       Write ''ok 1 - adds\<newline>'',
       Call (TestFunction ''t2''
              (Raises \<lparr>exc_class = Skip, args = [PyStr ''no'', PyStr ''hw''], traceback = []\<rparr>)),
       Write ''ok 2 # SKIP no hw\<newline>'',
       Call (TestFunction ''t3''
              (Raises \<lparr>exc_class = OtherException, args = [PyStr ''boom''],
                        traceback = ''ValueError: boom\<newline>''\<rparr>)),
       Write ''not ok 3\<newline>'',
       Write ''  ---\<newline>'',
       Write ''  exception: boom\<newline>'',
       Write ''  traceback: |-\<newline>'',
       Write ''    ValueError: boom\<newline>'',
       Write ''  ...\<newline>''])"
  using plan_runs_to_completion
    [of "add_test_point
        (add_test_point
           (add_test_point (Plan ''test_a.py'' None False) (TestFunction ''t1'' Returns) (Some ''adds''))
           (TestFunction ''t2''
              (Raises \<lparr>exc_class = Skip, args = [PyStr ''no'', PyStr ''hw''], traceback = []\<rparr>)) None)
        (TestFunction ''t3''
           (Raises \<lparr>exc_class = OtherException, args = [PyStr ''boom''],
                     traceback = ''ValueError: boom\<newline>''\<rparr>)) None" 0 "[]"]
  by (simp add: Plan_def add_test_point_def trim_empty_to_none_def message_of_def join_def
      result_line_def description_part_def reason_part_def diagnostic_block_def splitlines_def
      line_0 str_nat.simps digit_def isspace_def strip_def lstrip_def rstrip_def
      tap_escape_def tap_escape_char_def eval_nat_numeral)

subsection \<open>Skipped and empty plans\<close>

text \<open>
  Claim C4. For a plan that is marked as skipped or has no test point (its description
  being what the constructor stored: trimmed, or absent when blank),
  \<^verbatim>\<open>_execute_test_plan\<close> writes the single line \<^verbatim>\<open>1..0\<close>, followed by
  \<^verbatim>\<open> # SKIP\<close> and the escaped description exactly when the plan has a description,
  and returns success. It writes no result line and calls no test function: that one
  write is the only effect.
\<close>

theorem skipped_or_empty_plan:
  assumes "skipped p \<or> test_points p = []"
    and "description p = trim_empty_to_none d"
  shows "execute_test_plan p (build_stream_writer k) w =
     (Inr True,
      w @ [line k (''1..0''
             @ (case description p of None \<Rightarrow> [] | Some t \<Rightarrow> '' # SKIP '' @ tap_escape t))])"
proof (cases "description p")
  case None
  with assms(1) show ?thesis
    by (auto simp add: execute_test_plan_def truthy_def writer_stream)
next
  case (Some t)
  with assms(2) have "t \<noteq> [] \<and> strip t = t \<and> \<not> list_all isspace t"
    using trim_empty_to_none_Some [of d t] by simp
  with Some assms(1) show ?thesis
    by (auto simp add: execute_test_plan_def truthy_def writer_stream escape_string_Some fmt_opt_def)
qed

theorem skipped_or_empty_plan_witness:
  "execute_test_plan
     (add_test_point (Plan ''test_a.py'' (Some '' no # hw '') True) (TestFunction ''t'' Returns) None)
     (build_stream_writer 4) []
     = (Inr True, [Write (''    1..0 # SKIP no '' @ [CHR 0x5C] @ ''# hw\<newline>'')])
   \<and> execute_test_plan (Plan ''test_b.py'' None False) (build_stream_writer 0) []
     = (Inr True, [Write ''1..0\<newline>''])"
  using skipped_or_empty_plan
      [of "add_test_point (Plan ''test_a.py'' (Some '' no # hw '') True) (TestFunction ''t'' Returns) None"
        "Some '' no # hw ''" 4 "[]"]
    skipped_or_empty_plan [of "Plan ''test_b.py'' None False" None 0 "[]"]
  by (simp add: line_0 line_4 Plan_def add_test_point_def trim_empty_to_none_def isspace_def
      strip_def lstrip_def rstrip_def tap_escape_def tap_escape_char_def)

subsection \<open>Single mode\<close>




subsection \<open>Multi mode with the root plan\<close>




subsection \<open>The escaping rule\<close>

text \<open>
  Claim C7, as stated, fails in its second part: the escaping is not applied to
  directive-reason text only. \<^verbatim>\<open>_format_bailout_exception\<close> passes the reason of
  the bail-out line through \<^verbatim>\<open>_escape_string\<close> as well, so the hash sign of
  \<^verbatim>\<open>BailOut("fuse #2")\<close> is written escaped, in a line that carries no directive.
\<close>

theorem escape_string_rule_counterexample:
  "format_bailout_exception \<lparr>exc_class = BailOut, args = [PyStr ''fuse #2''], traceback = []\<rparr>
     = Inr (''Bail out! fuse '' @ [CHR 0x5C] @ ''#2\<newline>'')
   \<and> execute_test_plans
       (OnePlan
          (add_test_point (Plan ''test_a.py'' None False)
             (TestFunction ''hot''
                (Raises \<lparr>exc_class = BailOut, args = [PyStr ''fuse #2''], traceback = []\<rparr>)) None))
       True []
     = (Inr (),
        [Write ''TAP version 14\<newline>'',
         Write ''1..1\<newline>'',
         Call (TestFunction ''hot''
                (Raises \<lparr>exc_class = BailOut, args = [PyStr ''fuse #2''], traceback = []\<rparr>)),
         Write (''Bail out! fuse '' @ [CHR 0x5C] @ ''#2\<newline>\<newline>'')])"
  by (simp add: run_simps str_replace_def)

text \<open>
  Claim C7, amended. \<^verbatim>\<open>_escape_string\<close> maps \<^verbatim>\<open>None\<close>, the empty string and a
  string of whitespace only to \<^verbatim>\<open>None\<close>; of any other string it returns the trimmed
  text in which every backslash has become two backslashes and every hash sign a
  backslash and a hash sign. The escaping is applied to the reason of a directive and to
  the reason of the bail-out line, not to descriptions: in every result line written by
  \<^verbatim>\<open>_write_test_result\<close>, with or without a directive, and in every roll-up line
  the description appears as it is, while the reason of a directive is escaped; an
  absent or blank reason adds no text after the directive; and a bail-out reason that is
  not blank is written escaped.
\<close>

theorem escape_string_rule:
  "escape_string None = None
   \<and> escape_string (Some s) = (if list_all isspace s then None else Some (tap_escape (strip s)))
   \<and> write_test_result (build_stream_writer k) descr i success directive reason w =
       w @ [line k ((if success then ''ok'' else ''not ok'') @ '' '' @ str_nat i
              @ (case descr of None \<Rightarrow> [] | Some t \<Rightarrow> if t = [] then [] else '' - '' @ t)
              @ (case directive of
                   None \<Rightarrow> []
                 | Some d \<Rightarrow>
                     '' # '' @ directive_text d
                     @ (case reason of None \<Rightarrow> []
                        | Some r \<Rightarrow>
                            if list_all isspace r then [] else '' '' @ tap_escape (strip r))))]
   \<and> write_rollup j ((p, ok) # rest) w =
       write_rollup (Suc j) rest
         (w @ [Write ((if ok then ''ok'' else ''not ok'') @ '' '' @ str_nat j
                      @ (case description p of None \<Rightarrow> []
                         | Some t \<Rightarrow> if t = [] then [] else '' - '' @ t)
                      @ ''\<newline>'')])
   \<and> (join '' '' (args e) = Inr msg \<and> \<not> list_all isspace msg \<longrightarrow>
        format_bailout_exception e = Inr (''Bail out! '' @ tap_escape (strip msg) @ ''\<newline>''))"
proof (intro conjI impI)
  show "escape_string None = None" by (simp add: escape_string_def)
  show "escape_string (Some s) = (if list_all isspace s then None else Some (tap_escape (strip s)))"
    by (rule escape_string_Some)
  show "write_test_result (build_stream_writer k) descr i success directive reason w =
       w @ [line k ((if success then ''ok'' else ''not ok'') @ '' '' @ str_nat i
              @ (case descr of None \<Rightarrow> [] | Some t \<Rightarrow> if t = [] then [] else '' - '' @ t)
              @ (case directive of
                   None \<Rightarrow> []
                 | Some d \<Rightarrow>
                     '' # '' @ directive_text d
                     @ (case reason of None \<Rightarrow> []
                        | Some r \<Rightarrow>
                            if list_all isspace r then [] else '' '' @ tap_escape (strip r))))]"
    by (cases directive) (simp_all add: write_test_result_text description_part_def reason_part_def)
  have d: "(if truthy x then y @ '' - '' @ fmt_opt x else y)
      = y @ (case x of None \<Rightarrow> [] | Some t \<Rightarrow> if t = [] then [] else '' - '' @ t)" for x y
    by (cases x) (simp_all add: truthy_def fmt_opt_def)
  show "write_rollup j ((p, ok) # rest) w =
       write_rollup (Suc j) rest
         (w @ [Write ((if ok then ''ok'' else ''not ok'') @ '' '' @ str_nat j
                      @ (case description p of None \<Rightarrow> []
                         | Some t \<Rightarrow> if t = [] then [] else '' - '' @ t)
                      @ ''\<newline>'')])"
    by (simp add: writer_stream line_0 d Let_def)
  assume "join '' '' (args e) = Inr msg \<and> \<not> list_all isspace msg"
  then show "format_bailout_exception e = Inr (''Bail out! '' @ tap_escape (strip msg) @ ''\<newline>'')"
    by (simp add: format_bailout_exception_text)
qed

theorem escape_string_rule_witness:
  "escape_string (Some ('' a#b'' @ [CHR 0x5C] @ '' ''))
     = Some (''a'' @ [CHR 0x5C] @ ''#b'' @ [CHR 0x5C, CHR 0x5C])
   \<and> write_test_result (build_stream_writer 0) (Some ''a#b'') 2 True None None []
     = [Write ''ok 2 - a#b\<newline>'']
   \<and> write_test_result (build_stream_writer 0) (Some ''a#b'') 2 True (Some SKIP) (Some ''x#y'') []
     = [Write (''ok 2 - a#b # SKIP x'' @ [CHR 0x5C] @ ''#y\<newline>'')]
   \<and> write_test_result (build_stream_writer 0) None 2 False (Some TODO) (Some ''  '') []
     = [Write ''not ok 2 # TODO\<newline>'']
   \<and> write_rollup 1 [(Plan ''test_a.py'' (Some ''a#b'') False, True)] []
     = [Write ''ok 1 - a#b\<newline>'']
   \<and> format_bailout_exception \<lparr>exc_class = BailOut, args = [PyStr ''fuse #2''], traceback = []\<rparr>
     = Inr (''Bail out! fuse '' @ [CHR 0x5C] @ ''#2\<newline>'')"
  using escape_string_rule
      [where s = "'' a#b'' @ [CHR 0x5C] @ '' ''" and k = 0 and descr = "Some ''a#b''" and i = 2
        and success = True and directive = None and reason = None and w = "[]"
        and j = 1 and p = "Plan ''test_a.py'' (Some ''a#b'') False" and ok = True and rest = "[]"
        and e = "\<lparr>exc_class = BailOut, args = [PyStr ''fuse #2''], traceback = []\<rparr>"
        and msg = "''fuse #2''"]
    escape_string_rule
      [where k = 0 and descr = "Some ''a#b''" and i = 2 and success = True
        and directive = "Some SKIP" and reason = "Some ''x#y''" and w = "[]"]
    escape_string_rule
      [where k = 0 and descr = None and i = 2 and success = False
        and directive = "Some TODO" and reason = "Some ''  ''" and w = "[]"]
  by (simp add: line_0 str_nat.simps digit_def isspace_def strip_def lstrip_def rstrip_def
      tap_escape_def tap_escape_char_def join_def Plan_def trim_empty_to_none_def)

subsection \<open>A test point that raises an unhandled error\<close>

text \<open>
  Claim C8, as stated, fails. An exception that is not an instance of
  \<^verbatim>\<open>Exception\<close> (such as \<^verbatim>\<open>KeyboardInterrupt\<close>) is caught by no clause of the
  runner: it leaves the runner with no result line written. And for an
  \<^verbatim>\<open>Exception\<close> with an argument that is not a string (such as
  \<^verbatim>\<open>OSError(2)\<close>), joining the arguments raises \<^verbatim>\<open>TypeError\<close> after the
  \<^verbatim>\<open>not ok\<close> line: no diagnostic block is written and the runner is left by the
  \<^verbatim>\<open>TypeError\<close>.
\<close>

theorem unhandled_error_test_point_counterexample:
  "execute_test_plan
     (add_test_point (Plan ''test_a.py'' None False)
        (TestFunction ''interrupted''
           (Raises \<lparr>exc_class = OtherBaseException, args = [], traceback = []\<rparr>)) None)
     (build_stream_writer 0) []
   = (Inl (Raised \<lparr>exc_class = OtherBaseException, args = [], traceback = []\<rparr>),
      [Write ''1..1\<newline>'',
       Call (TestFunction ''interrupted''
              (Raises \<lparr>exc_class = OtherBaseException, args = [], traceback = []\<rparr>))])
   \<and> execute_test_plan
     (add_test_point (Plan ''test_a.py'' None False)
        (TestFunction ''opens''
           (Raises \<lparr>exc_class = OtherException, args = [PyInt 2], traceback = []\<rparr>)) None)
     (build_stream_writer 0) []
   = (Inl TypeError,
      [Write ''1..1\<newline>'',
       Call (TestFunction ''opens''
              (Raises \<lparr>exc_class = OtherException, args = [PyInt 2], traceback = []\<rparr>)),
       Write ''not ok 1\<newline>''])"
  by (simp add: execute_test_plan_def execute_test_point_def call_def Plan_def add_test_point_def
      trim_empty_to_none_def write_test_result_text description_part_def format_exception_def
      join_def writer_stream line_0 str_nat.simps digit_def)

text \<open>
  Claim C8, amended. In a plan that is not skipped, let the test point at the 1-based
  index \<open>i = length pre + 1\<close> raise an instance of \<^verbatim>\<open>Exception\<close> that is none of
  \<^verbatim>\<open>Skip\<close>, \<^verbatim>\<open>ToDo\<close>, \<^verbatim>\<open>Fail\<close>, \<^verbatim>\<open>BailOut\<close> and whose arguments are
  strings joining to \<open>msg\<close>, the test points before it having outcomes the runner
  handles. Then the runner calls it, writes \<^verbatim>\<open>not ok i\<close> (with the description if
  there is one) and immediately after it the diagnostic block, every line of it two
  spaces deeper than the result line and trimmed on the right: \<^verbatim>\<open>---\<close>, the line (or
  lines) of \<^verbatim>\<open>exception: msg\<close>, \<^verbatim>\<open>traceback: |-\<close>, the lines of the trace each
  behind two more spaces, and \<^verbatim>\<open>...\<close>. The runner goes on with the success flag
  false, so a plan whose later outcomes are handled returns false.
\<close>

theorem unhandled_error_test_point:
  assumes "\<not> skipped p" and "test_points p = pre @ (f, d) # post"
    and "\<forall>tp \<in> set pre. handled (fn_outcome (fst tp))"
    and "fn_outcome f = Raises e" and "exc_class e = OtherException"
    and "join '' '' (args e) = Inr msg"
  shows "execute_test_plan p (build_stream_writer k) w =
       execute_test_points (build_stream_writer k) (length pre + 2) False post
         (w @ line k (''1..'' @ str_nat (length (test_points p)))
            # concat (map (point_events k) (enumerate 1 pre))
            @ Call f
            # line k (''not ok '' @ str_nat (length pre + 1) @ description_part d)
            # map (\<lambda>l. line k (''  '' @ rstrip l))
                (''---'' # splitlines (''exception: '' @ msg @ ''\<newline>'')
                 @ ''traceback: |-'' # map (\<lambda>l. ''  '' @ l) (splitlines (traceback e))
                 @ [''...'']))
     \<and> ((\<forall>tp \<in> set post. handled (fn_outcome (fst tp))) \<longrightarrow>
          fst (execute_test_plan p (build_stream_writer k) w) = Inr False)"
proof -
  from assms(4,5,6) have h: "handled (fn_outcome f)"
    by (simp add: message_of_def)
  have step: "execute_test_point (build_stream_writer k) i (f, d) s w' =
      (Inr False,
       w' @ Call f # line k (''not ok '' @ str_nat i @ description_part d)
          # map (\<lambda>l. line k (''  '' @ rstrip l))
              (''---'' # splitlines (''exception: '' @ msg @ ''\<newline>'')
               @ ''traceback: |-'' # map (\<lambda>l. ''  '' @ l) (splitlines (traceback e))
               @ [''...'']))" for i s w'
    using assms(4,5,6)
    by (simp add: execute_test_point_handled [OF h] point_events_def result_line_def
        message_of_def diagnostic_block_def comp_def)
  have eq: "execute_test_plan p (build_stream_writer k) w =
       execute_test_points (build_stream_writer k) (length pre + 2) False post
         (w @ line k (''1..'' @ str_nat (length (test_points p)))
            # concat (map (point_events k) (enumerate 1 pre))
            @ Call f
            # line k (''not ok '' @ str_nat (length pre + 1) @ description_part d)
            # map (\<lambda>l. line k (''  '' @ rstrip l))
                (''---'' # splitlines (''exception: '' @ msg @ ''\<newline>'')
                 @ ''traceback: |-'' # map (\<lambda>l. ''  '' @ l) (splitlines (traceback e))
                 @ [''...'']))"
    by (simp add: reach_test_point [OF assms(1,2,3)] step)
  show ?thesis
  proof (intro conjI impI)
    show "execute_test_plan p (build_stream_writer k) w =
       execute_test_points (build_stream_writer k) (length pre + 2) False post
         (w @ line k (''1..'' @ str_nat (length (test_points p)))
            # concat (map (point_events k) (enumerate 1 pre))
            @ Call f
            # line k (''not ok '' @ str_nat (length pre + 1) @ description_part d)
            # map (\<lambda>l. line k (''  '' @ rstrip l))
                (''---'' # splitlines (''exception: '' @ msg @ ''\<newline>'')
                 @ ''traceback: |-'' # map (\<lambda>l. ''  '' @ l) (splitlines (traceback e))
                 @ [''...'']))"
      by (rule eq)
  next
    assume "\<forall>tp \<in> set post. handled (fn_outcome (fst tp))"
    then show "fst (execute_test_plan p (build_stream_writer k) w) = Inr False"
      by (simp add: eq execute_test_points_flag)
  qed
qed

theorem unhandled_error_test_point_witness:
  "execute_test_plan
     (add_test_point
        (add_test_point
           (add_test_point (Plan ''test_a.py'' None False) (TestFunction ''t1'' Returns) None)
           (TestFunction ''t2''
              (Raises \<lparr>exc_class = OtherException, args = [PyStr ''boom''],
                        traceback = ''Traceback'' @ [CHR 0x0A] @ ''ValueError: boom'' @ [CHR 0x0A]\<rparr>))
           (Some ''div''))
        (TestFunction ''t3'' Returns) None)
     (build_stream_writer 0) []
   = (Inr False,
      [Write ''1..3\<newline>'',
       Call (TestFunction ''t1'' Returns),
       Write ''ok 1\<newline>'',
       Call (TestFunction ''t2''
           (Raises \<lparr>exc_class = OtherException, args = [PyStr ''boom''],
                     traceback = ''Traceback'' @ [CHR 0x0A] @ ''ValueError: boom'' @ [CHR 0x0A]\<rparr>)),
       Write ''not ok 2 - div\<newline>'',
       Write ''  ---\<newline>'',
       Write ''  exception: boom\<newline>'',
       Write ''  traceback: |-\<newline>'',
       Write ''    Traceback\<newline>'',
       Write ''    ValueError: boom\<newline>'',
       Write ''  ...\<newline>'',
       Call (TestFunction ''t3'' Returns),
       Write ''ok 3\<newline>''])"
  using unhandled_error_test_point
    [where p = "add_test_point
        (add_test_point
           (add_test_point (Plan ''test_a.py'' None False) (TestFunction ''t1'' Returns) None)
           (TestFunction ''t2''
              (Raises \<lparr>exc_class = OtherException, args = [PyStr ''boom''],
                        traceback = ''Traceback'' @ [CHR 0x0A] @ ''ValueError: boom'' @ [CHR 0x0A]\<rparr>))
           (Some ''div''))
        (TestFunction ''t3'' Returns) None"
      and pre = "[(TestFunction ''t1'' Returns, None)]"
      and f = "TestFunction ''t2''
           (Raises \<lparr>exc_class = OtherException, args = [PyStr ''boom''],
                     traceback = ''Traceback'' @ [CHR 0x0A] @ ''ValueError: boom'' @ [CHR 0x0A]\<rparr>)"
      and d = "Some ''div''"
      and post = "[(TestFunction ''t3'' Returns, None)]"
      and e = "\<lparr>exc_class = OtherException, args = [PyStr ''boom''],
                     traceback = ''Traceback'' @ [CHR 0x0A] @ ''ValueError: boom'' @ [CHR 0x0A]\<rparr>"
      and msg = "''boom''" and k = 0 and w = "[]"]
  by (simp add: run_simps point_events_def result_line_def del: execute_test_plan_def)

subsection \<open>The bail-out line of a blank message\<close>

text \<open>
  Claim C9. When the arguments of a \<^verbatim>\<open>BailOut\<close> join to a message that is empty or
  consists of whitespace only (as for a \<^verbatim>\<open>BailOut\<close> raised without arguments),
  \<^verbatim>\<open>_format_bailout_exception\<close> returns the text \<^verbatim>\<open>Bail out! None\<close> followed by a
  line feed: the \<^verbatim>\<open>None\<close> that the escaping function returns is interpolated into
  the line.
\<close>

theorem format_bailout_exception_blank:
  assumes "join '' '' (args e) = Inr message" and "list_all isspace message"
  shows "format_bailout_exception e = Inr ''Bail out! None\<newline>''"
  using assms
  by (simp add: format_bailout_exception_def escape_string_blank fmt_opt_def
      strip_def lstrip_def rstrip_def isspace_def)

theorem format_bailout_exception_blank_witness:
  "format_bailout_exception \<lparr>exc_class = BailOut, args = [], traceback = []\<rparr>
     = Inr ''Bail out! None\<newline>''
   \<and> format_bailout_exception
        \<lparr>exc_class = BailOut, args = [PyStr '' '', PyStr []], traceback = []\<rparr>
     = Inr ''Bail out! None\<newline>''"
  using format_bailout_exception_blank
      [of "\<lparr>exc_class = BailOut, args = [], traceback = []\<rparr>" "[]"]
    format_bailout_exception_blank
      [of "\<lparr>exc_class = BailOut, args = [PyStr '' '', PyStr []], traceback = []\<rparr>" "''  ''"]
  by (simp add: join_def isspace_def)

subsection \<open>The empty sequence of plans\<close>

text \<open>
  Claim C10. Given the empty sequence of plans and the root-plan flag,
  \<^verbatim>\<open>execute_test_plans\<close> runs in multi mode and writes exactly two lines,
  \<^verbatim>\<open>TAP version 14\<close> and \<^verbatim>\<open>1..0\<close>: no comment line, nothing from the plan
  runner, no roll-up line, and no test function is called.
\<close>

theorem empty_sequence_root_plan:
  "execute_test_plans (ListOrTuple []) True w =
     (Inr (), w @ [Write ''TAP version 14\<newline>'', Write ''1..0\<newline>''])
   \<and> execute_test_plans (OtherSequence []) True w =
     (Inr (), w @ [Write ''TAP version 14\<newline>'', Write ''1..0\<newline>''])"
  by (simp add: execute_test_plans_def plan_items_def writer_stream line_0 str_nat_0)

end
